theory Spec2Isabelle
  imports Main
begin

section \<open>JavaScript values\<close>

text \<open>
  The plugin is JavaScript: the values it handles (parsed XML, meeting objects, search
  documents, callback arguments) are dynamically typed. They are modelled by one datatype.
  An object is the list of its own properties in insertion order, which is the order
  \<^verbatim>\<open>for (var p in o)\<close> enumerates the string keys this program uses. Numbers are the
  integers (the program never computes with a number; it only tests and copies them).
\<close>

datatype jsval =
    JUndefined
  | JNull
  | JBool bool
  | JNum int
  | JStr string
  | JArr "jsval list"
  | JObj "(string \<times> jsval) list"

datatype js_error = TypeError | ReferenceError

type_synonym js_object = "(string \<times> jsval) list"

text \<open>Truthiness, as tested by \<^verbatim>\<open>if (v)\<close>, \<^verbatim>\<open>v || d\<close> and underscore's \<^verbatim>\<open>_.compact\<close>.\<close>

fun truthy :: "jsval \<Rightarrow> bool" where
  "truthy JUndefined = False"
| "truthy JNull = False"
| "truthy (JBool b) = b"
| "truthy (JNum n) = (n \<noteq> 0)"
| "truthy (JStr s) = (s \<noteq> [])"
| "truthy (JArr xs) = True"
| "truthy (JObj ps) = True"

fun nullish :: "jsval \<Rightarrow> bool" where
  "nullish JUndefined = True"
| "nullish JNull = True"
| "nullish v = False"

text \<open>Reading an own property of an object: \<^verbatim>\<open>undefined\<close> when it is absent.\<close>

definition lookup :: "js_object \<Rightarrow> string \<Rightarrow> jsval" where
  "lookup ps k = (case map_of ps k of None \<Rightarrow> JUndefined | Some v \<Rightarrow> v)"

text \<open>
  \<^verbatim>\<open>v.k\<close> and \<^verbatim>\<open>v['k']\<close> for the property names this program reads (none is
  \<^verbatim>\<open>length\<close>, an index or a member of a prototype): the property of an object,
  \<^verbatim>\<open>undefined\<close> on any other value that is not \<^verbatim>\<open>undefined\<close> or \<^verbatim>\<open>null\<close>.
  On these two the read throws a TypeError, which \<open>js_get\<close> returns as \<open>Inl\<close>.
\<close>

fun js_prop :: "jsval \<Rightarrow> string \<Rightarrow> jsval" where
  "js_prop (JObj ps) k = lookup ps k"
| "js_prop v k = JUndefined"

definition js_get :: "jsval \<Rightarrow> string \<Rightarrow> js_error + jsval" where
  "js_get v k = (if nullish v then Inl TypeError else Inr (js_prop v k))"

text \<open>\<^verbatim>\<open>o.k = v\<close> on an object: replaces the property in place, or adds it at the end.\<close>

fun set_prop :: "js_object \<Rightarrow> string \<Rightarrow> jsval \<Rightarrow> js_object" where
  "set_prop [] k v = [(k, v)]"
| "set_prop ((k', v') # ps) k v =
     (if k' = k then (k, v) # ps else (k', v') # set_prop ps k v)"

definition has_prop :: "js_object \<Rightarrow> string \<Rightarrow> bool" where
  "has_prop ps k = (k \<in> fst ` set ps)"

subsection \<open>Conversion to string\<close>

definition digit_char :: "nat \<Rightarrow> char" where
  "digit_char d = ''0123456789'' ! d"

fun dec_nat :: "nat \<Rightarrow> string" where
  "dec_nat n = (if n < 10 then [digit_char n] else dec_nat (n div 10) @ [digit_char (n mod 10)])"

declare dec_nat.simps [simp del]

definition dec_int :: "int \<Rightarrow> string" where
  "dec_int i = (if i < 0 then CHR ''-'' # dec_nat (nat (- i)) else dec_nat (nat i))"

fun join_with :: "string \<Rightarrow> string list \<Rightarrow> string" where
  "join_with sep [] = []"
| "join_with sep [s] = s"
| "join_with sep (s # t # ss) = s @ sep @ join_with sep (t # ss)"

text \<open>
  \<^verbatim>\<open>ToString\<close>, which \<^verbatim>\<open>'text' + v\<close> applies to \<^verbatim>\<open>v\<close>. An array is the
  comma-joined strings of its elements, \<^verbatim>\<open>undefined\<close> and \<^verbatim>\<open>null\<close> elements being
  empty (\<^verbatim>\<open>Array.prototype.join\<close>); a plain object is \<^verbatim>\<open>[object Object]\<close>.
\<close>

fun js_to_string :: "jsval \<Rightarrow> string" where
  "js_to_string JUndefined = ''undefined''"
| "js_to_string JNull = ''null''"
| "js_to_string (JBool b) = (if b then ''true'' else ''false'')"
| "js_to_string (JNum n) = dec_int n"
| "js_to_string (JStr s) = s"
| "js_to_string (JArr xs) =
     join_with '','' (map (\<lambda>x. if nullish x then [] else js_to_string x) xs)"
| "js_to_string (JObj ps) = ''[object Object]''"

text \<open>\<^verbatim>\<open>xs.join(sep)\<close> on an array.\<close>

definition js_join :: "string \<Rightarrow> jsval list \<Rightarrow> string" where
  "js_join sep xs = join_with sep (map (\<lambda>x. if nullish x then [] else js_to_string x) xs)"

text \<open>
  \<^verbatim>\<open>v == 'literal'\<close> for a literal that does not read as a number (the literals of this
  program are \<^verbatim>\<open>SUCCESS\<close>, \<^verbatim>\<open>FAILED\<close> and \<^verbatim>\<open>notFound\<close>): a string is compared as a
  string, an array or object after conversion to a string, and \<^verbatim>\<open>undefined\<close>,
  \<^verbatim>\<open>null\<close>, numbers and booleans are never equal to it. The XML parser wraps the text of
  a child element in a one-element array by default, and \<^verbatim>\<open>['FAILED'] == 'FAILED'\<close> holds.
\<close>

fun loose_eq_lit :: "jsval \<Rightarrow> string \<Rightarrow> bool" where
  "loose_eq_lit (JStr s) lit = (s = lit)"
| "loose_eq_lit (JArr xs) lit = (js_to_string (JArr xs) = lit)"
| "loose_eq_lit (JObj ps) lit = (js_to_string (JObj ps) = lit)"
| "loose_eq_lit v lit = False"

text \<open>
  \<^verbatim>\<open>s.substring(a, b)\<close> for non-negative integer arguments: both are clamped to the
  length, swapped when out of order, and the characters from the smaller (inclusive) to the
  larger (exclusive) are returned.
\<close>

definition substring :: "string \<Rightarrow> nat \<Rightarrow> nat \<Rightarrow> string" where
  "substring s a b =
     (let a' = min a (length s); b' = min b (length s)
      in take (max a' b' - min a' b') (drop (min a' b') s))"

text \<open>The \<open>i\<close>-th argument a function receives: \<^verbatim>\<open>undefined\<close> when fewer were passed.\<close>

definition arg :: "jsval list \<Rightarrow> nat \<Rightarrow> jsval" where
  "arg args i = (if i < length args then args ! i else JUndefined)"

section \<open>The meeting-join URL signer\<close>

text \<open>
  What the signer takes from outside the repository: the \<^verbatim>\<open>sha1\<close> package, the
  built-in \<^verbatim>\<open>encodeURIComponent\<close>, and the host's configuration store
  (\<^verbatim>\<open>BBBConfig.getValue\<close>), whose values for the two text settings read here are strings.
\<close>

record externals =
  sha1 :: "string \<Rightarrow> string"
  encodeURIComponent :: "string \<Rightarrow> string"
  getValue :: "string \<Rightarrow> string \<Rightarrow> string \<Rightarrow> string"

record config =
  endpoint :: string
  secret :: string

text \<open>The source names below start with an underscore, which an Isabelle name cannot.\<close>

definition getChecksum :: "externals \<Rightarrow> string \<Rightarrow> string \<Rightarrow> string \<Rightarrow> string" where
  "getChecksum E action secret' params = sha1 E (action @ params @ secret')"

definition getBBBActionURL ::
  "externals \<Rightarrow> string \<Rightarrow> string \<Rightarrow> string \<Rightarrow> string \<Rightarrow> string" where
  "getBBBActionURL E endpoint' action secret' params =
     endpoint' @ ''api/'' @ action @ ''?'' @ params @ ''&checksum=''
       @ getChecksum E action secret' params"

definition getVerifiedBBBEndpoint :: "string \<Rightarrow> string" where
  "getVerifiedBBBEndpoint endpoint' = endpoint'"

definition getConfig :: "externals \<Rightarrow> string \<Rightarrow> config" where
  "getConfig E tenantAlias =
     \<lparr> endpoint = getVerifiedBBBEndpoint (getValue E tenantAlias ''bbb'' ''endpoint''),
       secret = getValue E tenantAlias ''bbb'' ''secret'' \<rparr>"

text \<open>
  \<^verbatim>\<open>_getQueryStringParams\<close>: the loop over the properties of \<^verbatim>\<open>params\<close>, every one of
  which is an own property. The separator is added when the string built so far is not empty.
\<close>

fun getQueryStringParams_loop :: "string \<Rightarrow> js_object \<Rightarrow> string" where
  "getQueryStringParams_loop qsParams [] = qsParams"
| "getQueryStringParams_loop qsParams ((param, v) # rest) =
     getQueryStringParams_loop
       ((qsParams @ (if qsParams \<noteq> [] then ''&'' else [])) @ param @ ''='' @ js_to_string v)
       rest"

definition getQueryStringParams :: "js_object \<Rightarrow> string" where
  "getQueryStringParams params = getQueryStringParams_loop [] params"

section \<open>Effects\<close>

text \<open>
  The functions of the plugin return nothing of interest: they act by issuing HTTP requests
  and by invoking the callback they were given. A run is modelled by the list of these
  effects, in the order they happen: an HTTP request sent to a URL, an \<^verbatim>\<open>error\<close> event
  emitted on a request object that has no listener for it, the callback invoked with a list
  of arguments, and an exception thrown out of the running handler. Calls of
  \<^verbatim>\<open>console.info\<close> are left out.
\<close>

datatype event =
    HttpRequest string
  | ErrorEvent jsval
  | Callback "jsval list"
  | Throws js_error

text \<open>
  Node ends the process on an uncaught exception and on an \<^verbatim>\<open>error\<close> event nobody
  listens for; the model stops a run there.
\<close>

fun fatal :: "event \<Rightarrow> bool" where
  "fatal (Throws e) = True"
| "fatal (ErrorEvent e) = True"
| "fatal ev = False"

fun feed :: "('s \<Rightarrow> 'i \<Rightarrow> 's \<times> event list) \<Rightarrow> 's \<Rightarrow> 'i list \<Rightarrow> 's \<times> event list" where
  "feed h s [] = (s, [])"
| "feed h s (d # ds) =
     (case h s d of (s', evs) \<Rightarrow>
        if list_ex fatal evs then (s', evs)
        else (case feed h s' ds of (s'', evs') \<Rightarrow> (s'', evs @ evs')))"

text \<open>The URLs a run sends requests to, in order.\<close>

fun requests :: "event list \<Rightarrow> string list" where
  "requests [] = []"
| "requests (HttpRequest url # evs) = url # requests evs"
| "requests (ev # evs) = requests evs"

section \<open>The HTTP/XML proxy\<close>

text \<open>
  What the proxy takes from outside: Node's \<^verbatim>\<open>http\<close> module, here the outcome of a request
  to a URL (the request fails with an error, or a response arrives whose body comes as a
  list of \<^verbatim>\<open>data\<close> chunks), and the \<^verbatim>\<open>xml2js\<close> parser, here the pair
  \<open>(err, result)\<close> with which \<^verbatim>\<open>parser.parseString\<close> invokes its callback, once, for
  a chunk.
\<close>

datatype http_outcome = RequestError jsval | Response "string list"

type_synonym http = "string \<Rightarrow> http_outcome"
type_synonym xml_parser = "string \<Rightarrow> jsval \<times> jsval"

text \<open>The function given to \<^verbatim>\<open>parser.parseString\<close> (lines 11 to 22 of the proxy).\<close>

definition executeBBBCall_onParsed :: "jsval \<Rightarrow> jsval \<Rightarrow> event" where
  "executeBBBCall_onParsed err result =
     (if truthy err then Callback [err]
      else (case js_get result ''response'' of
              Inl e \<Rightarrow> Throws e
            | Inr response \<Rightarrow>
                (case js_get response ''returncode'' of
                   Inl e \<Rightarrow> Throws e
                 | Inr returncode \<Rightarrow>
                     if loose_eq_lit returncode ''SUCCESS''
                     then Callback [JNull, response]
                     else Callback [JNull, response])))"

text \<open>The listener of the \<^verbatim>\<open>data\<close> event.\<close>

definition executeBBBCall_onData :: "xml_parser \<Rightarrow> string \<Rightarrow> event" where
  "executeBBBCall_onData parse chunk =
     (case parse chunk of (err, result) \<Rightarrow> executeBBBCall_onParsed err result)"

text \<open>
  What follows the request: nothing is listening when the request fails, and each chunk
  of a response goes to the \<^verbatim>\<open>data\<close> listener.
\<close>

definition executeBBBCall_outcome :: "http \<Rightarrow> xml_parser \<Rightarrow> string \<Rightarrow> event list" where
  "executeBBBCall_outcome http parse url =
     (case http url of
        RequestError e \<Rightarrow> [ErrorEvent e]
      | Response chunks \<Rightarrow>
          snd (feed (\<lambda>u chunk. (u, [executeBBBCall_onData parse chunk])) () chunks))"

definition executeBBBCall :: "http \<Rightarrow> xml_parser \<Rightarrow> string \<Rightarrow> event list" where
  "executeBBBCall http parse url = HttpRequest url # executeBBBCall_outcome http parse url"

section \<open>Joining a meeting\<close>

text \<open>
  The context, the meeting profile and the user are objects of the host platform; the
  fields read from them are strings. \<^verbatim>\<open>ctx.tenant().alias\<close> is the alias of the tenant of
  the context.
\<close>

record tenant =
  tenant_alias :: string

record ctx =
  ctx_tenant :: tenant

record meetingProfile =
  mp_id :: string
  mp_displayName :: string

record user =
  user_displayName :: string

text \<open>
  The local variables of one call of \<^verbatim>\<open>getJoinMeetingURL\<close>, which its two callbacks
  close over. Only the two passwords are assigned again after line 36.
\<close>

record join_vars =
  jv_config :: config
  jv_fullName :: string
  jv_meetingID :: string
  jv_meetingName :: string
  moderatorPW :: jsval
  attendeePW :: jsval

text \<open>Lines 28 to 36.\<close>

definition getJoinMeetingURL_vars ::
  "externals \<Rightarrow> ctx \<Rightarrow> meetingProfile \<Rightarrow> user \<Rightarrow> join_vars" where
  "getJoinMeetingURL_vars E c meetingProfile usr =
     (let cfg = getConfig E (tenant_alias (ctx_tenant c));
          fullName = encodeURIComponent E (user_displayName usr);
          meetingID = sha1 E (mp_id meetingProfile @ secret cfg);
          meetingName = encodeURIComponent E (mp_displayName meetingProfile)
      in \<lparr> jv_config = cfg, jv_fullName = fullName, jv_meetingID = meetingID,
           jv_meetingName = meetingName,
           moderatorPW = JStr (sha1 E (substring meetingID 0 8 @ secret cfg)),
           attendeePW = JStr (sha1 E (substring meetingID 8 8 @ secret cfg)) \<rparr>)"

text \<open>Line 39, and line 49 (the \<^verbatim>\<open>params\<close> object of line 48 is not used there).\<close>

definition getMeetingInfoURL :: "externals \<Rightarrow> join_vars \<Rightarrow> string" where
  "getMeetingInfoURL E vars =
     getBBBActionURL E (endpoint (jv_config vars)) ''getMeetingInfo'' (secret (jv_config vars))
       (getQueryStringParams [(''meetingID'', JStr (jv_meetingID vars))])"

definition getCreateMeetingURL :: "externals \<Rightarrow> join_vars \<Rightarrow> string" where
  "getCreateMeetingURL E vars =
     getBBBActionURL E (endpoint (jv_config vars)) ''create'' (secret (jv_config vars))
       (getQueryStringParams [(''meetingID'', JStr (jv_meetingID vars))])"

text \<open>Lines 66 and 67.\<close>

definition joinParams :: "join_vars \<Rightarrow> js_object" where
  "joinParams vars =
     [(''meetingID'', JStr (jv_meetingID vars)), (''fullName'', JStr (jv_fullName vars)),
      (''password'', moderatorPW vars)]"

definition joinURL :: "externals \<Rightarrow> join_vars \<Rightarrow> string" where
  "joinURL E vars =
     getBBBActionURL E (endpoint (jv_config vars)) ''join'' (secret (jv_config vars))
       (getQueryStringParams (joinParams vars))"

text \<open>The callback of the \<^verbatim>\<open>create\<close> call (lines 50 to 58).\<close>

definition onCreate :: "join_vars \<Rightarrow> jsval list \<Rightarrow> join_vars \<times> event list" where
  "onCreate vars args =
     (let err = arg args 0; meetingInfo = arg args 1
      in if truthy err then (vars, [Callback [err]])
         else if nullish meetingInfo then (vars, [Throws TypeError])
         else (vars\<lparr> moderatorPW := js_prop meetingInfo ''moderatorPW'',
                     attendeePW := js_prop meetingInfo ''attendeePW'' \<rparr>, []))"

text \<open>
  The test of line 46. \<^verbatim>\<open>&&\<close> reads \<^verbatim>\<open>messageKey\<close> only when the first test holds; both
  reads are of the same value, which is not \<^verbatim>\<open>undefined\<close> or \<^verbatim>\<open>null\<close> here.
\<close>

definition meetingNotFound :: "jsval \<Rightarrow> bool" where
  "meetingNotFound meetingInfo =
     (loose_eq_lit (js_prop meetingInfo ''returncode'') ''FAILED''
      \<and> loose_eq_lit (js_prop meetingInfo ''messageKey'') ''notFound'')"

text \<open>
  The callback of the \<^verbatim>\<open>getMeetingInfo\<close> call (lines 40 to 69). It returns the variables
  as it leaves them, its effects, and the URLs of the \<^verbatim>\<open>create\<close> calls it has issued,
  whose responses arrive after it has returned.
\<close>

definition onMeetingInfo ::
  "externals \<Rightarrow> join_vars \<Rightarrow> jsval list \<Rightarrow> join_vars \<times> event list \<times> string list" where
  "onMeetingInfo E vars args =
     (let err = arg args 0; meetingInfo = arg args 1
      in if truthy err then (vars, [Callback [err]], [])
         else if nullish meetingInfo then (vars, [Throws TypeError], [])
         else if meetingNotFound meetingInfo
         then (vars,
               [HttpRequest (getCreateMeetingURL E vars),
                Callback [JNull, JObj [(''url'', JStr (joinURL E vars))]]],
               [getCreateMeetingURL E vars])
         else (let vars' = vars\<lparr> moderatorPW := js_prop meetingInfo ''moderatorPW'',
                                  attendeePW := js_prop meetingInfo ''attendeePW'' \<rparr>
               in (vars', [Callback [JNull, JObj [(''url'', JStr (joinURL E vars'))]]], [])))"

text \<open>
  A whole call. The proxy hands what it has for a response to the callback it was given;
  a fatal event of the proxy itself goes to the trace. The response to
  \<^verbatim>\<open>getMeetingInfo\<close> is handled first, then the responses to the \<^verbatim>\<open>create\<close> calls
  in the order the calls were made. When a response to \<^verbatim>\<open>getMeetingInfo\<close> comes in one
  chunk this is the only order there is; the statements about \<open>onMeetingInfo\<close> and
  \<open>onCreate\<close> below hold for any value of the variables, whatever the order.
\<close>

definition deliverInfo ::
  "externals \<Rightarrow> join_vars \<times> string list \<Rightarrow> event \<Rightarrow> (join_vars \<times> string list) \<times> event list" where
  "deliverInfo E s d =
     (case d of
        Callback args \<Rightarrow>
          (case onMeetingInfo E (fst s) args of
             (vars', evs, calls) \<Rightarrow> ((vars', snd s @ calls), evs))
      | _ \<Rightarrow> (s, [d]))"

definition deliverCreate :: "join_vars \<Rightarrow> event \<Rightarrow> join_vars \<times> event list" where
  "deliverCreate vars d = (case d of Callback args \<Rightarrow> onCreate vars args | _ \<Rightarrow> (vars, [d]))"

definition getJoinMeetingURL ::
  "externals \<Rightarrow> http \<Rightarrow> xml_parser \<Rightarrow> ctx \<Rightarrow> meetingProfile \<Rightarrow> user \<Rightarrow> event list" where
  "getJoinMeetingURL E http parse c meetingProfile usr =
     (let vars = getJoinMeetingURL_vars E c meetingProfile usr;
          url = getMeetingInfoURL E vars
      in case feed (deliverInfo E) (vars, []) (executeBBBCall_outcome http parse url) of
           ((vars', calls), evs) \<Rightarrow>
             HttpRequest url # evs @
               (if list_ex fatal evs then []
                else snd (feed (\<lambda>v u. feed deliverCreate v (executeBBBCall_outcome http parse u))
                            vars' calls)))"

section \<open>Search documents for meetings\<close>

text \<open>\<^verbatim>\<open>_.compact\<close> keeps the truthy elements of an array.\<close>

definition compact :: "jsval list \<Rightarrow> jsval list" where
  "compact xs = filter truthy xs"

text \<open>
  \<^verbatim>\<open>_produceMeetingSearchDocument\<close>. The first read of a property of \<^verbatim>\<open>meeting\<close> throws
  when it is \<^verbatim>\<open>undefined\<close> or \<^verbatim>\<open>null\<close>, and so does \<^verbatim>\<open>meeting.tenant.alias\<close> when
  the meeting has no tenant.
\<close>

definition produceMeetingSearchDocument :: "jsval \<Rightarrow> js_error + jsval" where
  "produceMeetingSearchDocument meeting =
     (if nullish meeting then Inl TypeError
      else
        (let fullText =
               js_join '' '' (compact [js_prop meeting ''displayName'', js_prop meeting ''description''])
         in case js_get (js_prop meeting ''tenant'') ''alias'' of
              Inl e \<Rightarrow> Inl e
            | Inr tenantAlias \<Rightarrow>
                (let doc =
                       [(''resourceType'', JStr ''meeting''),
                        (''id'', js_prop meeting ''id''),
                        (''tenantAlias'', tenantAlias),
                        (''displayName'', js_prop meeting ''displayName''),
                        (''visibility'', js_prop meeting ''visibility''),
                        (''q_high'', js_prop meeting ''displayName''),
                        (''q_low'', JStr fullText),
                        (''sort'', js_prop meeting ''displayName''),
                        (''_extra'', JObj [(''lastModified'', js_prop meeting ''lastModified'')])]
                 in Inr (JObj (if truthy (js_prop meeting ''description'')
                               then set_prop doc ''description'' (js_prop meeting ''description'')
                               else doc)))))"

text \<open>
  \<^verbatim>\<open>_getMeetings\<close>. Its \<^verbatim>\<open>resources\<close> are objects (\<^verbatim>\<open>Object[]\<close> in its comment). The
  loop of \<^verbatim>\<open>_.each\<close> collects the ids; the branch for a resource that carries a meeting
  reads the identifier \<^verbatim>\<open>dicussions\<close>, which is declared nowhere, and that throws a
  ReferenceError. The function ends by throwing, by invoking its callback, or by handing
  the ids and the callback to \<^verbatim>\<open>MeetingsDAO.getMeetingsById\<close>.
\<close>

fun getMeetings_each :: "js_object list \<Rightarrow> jsval list \<Rightarrow> js_error + jsval list" where
  "getMeetings_each [] meetingIds = Inr meetingIds"
| "getMeetings_each (resource # rest) meetingIds =
     (if truthy (lookup resource ''meeting'') then Inl ReferenceError
      else getMeetings_each rest (meetingIds @ [lookup resource ''id'']))"

datatype getMeetings_result =
    GM_Throws js_error
  | GM_Callback "jsval list"
  | GM_GetMeetingsById "jsval list"

definition getMeetings :: "js_object list \<Rightarrow> getMeetings_result" where
  "getMeetings resources =
     (case getMeetings_each resources [] of
        Inl e \<Rightarrow> GM_Throws e
      | Inr meetingIds \<Rightarrow>
          if meetingIds = [] then GM_Callback [JNull, JArr []]
          else GM_GetMeetingsById meetingIds)"

text \<open>The first exception ends \<^verbatim>\<open>_.map\<close>.\<close>

fun collect :: "(js_error + 'a) list \<Rightarrow> js_error + 'a list" where
  "collect [] = Inr []"
| "collect (Inl e # rs) = Inl e"
| "collect (Inr x # rs) = (case collect rs of Inl e \<Rightarrow> Inl e | Inr xs \<Rightarrow> Inr (x # xs))"

text \<open>
  \<^verbatim>\<open>_produceMeetingSearchDocuments\<close>: first the callback it gives to \<^verbatim>\<open>_getMeetings\<close>
  (lines 154 to 167), then the function. \<^verbatim>\<open>MeetingsDAO.getMeetingsById\<close> is outside the
  repository; \<open>dao\<close> is the error and the array of meetings it passes to its callback.
\<close>

datatype search_event =
    GetMeetingsById "jsval list"
  | SearchCallback "jsval list"
  | SearchThrows js_error

definition produceMeetingSearchDocuments_onMeetings :: "jsval \<Rightarrow> jsval list \<Rightarrow> search_event" where
  "produceMeetingSearchDocuments_onMeetings err meetings =
     (if truthy err then SearchCallback [JArr [err]]
      else if compact meetings = [] then SearchCallback []
      else (case collect (map produceMeetingSearchDocument (compact meetings)) of
              Inl e \<Rightarrow> SearchThrows e
            | Inr docs \<Rightarrow> SearchCallback [JNull, JArr docs]))"

definition produceMeetingSearchDocuments ::
  "(jsval list \<Rightarrow> jsval \<times> jsval list) \<Rightarrow> js_object list \<Rightarrow> search_event list" where
  "produceMeetingSearchDocuments dao resources =
     (case getMeetings resources of
        GM_Throws e \<Rightarrow> [SearchThrows e]
      | GM_Callback args \<Rightarrow>
          [produceMeetingSearchDocuments_onMeetings (arg args 0)
             (case arg args 1 of JArr ms \<Rightarrow> ms | _ \<Rightarrow> [])]
      | GM_GetMeetingsById meetingIds \<Rightarrow>
          [GetMeetingsById meetingIds,
           (case dao meetingIds of
              (err, meetings) \<Rightarrow> produceMeetingSearchDocuments_onMeetings err meetings)])"

section \<open>Search documents for the messages of meetings\<close>

text \<open>
  Documents and errors are objects, which \<^verbatim>\<open>_.union\<close> compares by identity. They are
  values of two types \<open>'d\<close> and \<open>'e\<close> whose equality stands for that identity.
  \<^verbatim>\<open>_.union\<close> is the list of the distinct elements of its arguments in the order of their
  first occurrence; an argument that is not an array (here \<^verbatim>\<open>_errs\<close> while it is
  \<^verbatim>\<open>undefined\<close>, written \<open>None\<close>) adds nothing, as in underscore 1.7 and later.
\<close>

definition uniq :: "'a list \<Rightarrow> 'a list" where
  "uniq xs = rev (remdups (rev xs))"

definition union_arrays :: "'a list \<Rightarrow> 'a list \<Rightarrow> 'a list" where
  "union_arrays xs ys = uniq (xs @ ys)"

definition or_empty :: "'a list option \<Rightarrow> 'a list" where
  "or_empty xs = (case xs of None \<Rightarrow> [] | Some ys \<Rightarrow> ys)"

text \<open>
  The two functions of the host's message box module: the first returns the documents for
  the messages a resource carries, the second fetches all messages of a meeting and passes
  an error, if any, and the array of documents (empty when there are none) to its
  callback, which it invokes once.
\<close>

record ('d, 'e) messagebox =
  createMessageSearchDocuments :: "jsval \<Rightarrow> jsval \<Rightarrow> 'd list"
  createAllMessageSearchDocuments :: "jsval \<Rightarrow> 'e option \<times> 'd list"

datatype ('d, 'e) message_event =
    CreateMessageSearchDocuments jsval jsval
  | CreateAllMessageSearchDocuments jsval
  | MessageCallback "'e list option" "'d list"

text \<open>
  \<^verbatim>\<open>_produceMeetingMessageDocuments\<close>: \<^verbatim>\<open>resources.pop()\<close> takes the last element off
  the array, and the function calls itself on what remains.
\<close>

function produceMeetingMessageDocuments ::
  "('d, 'e) messagebox \<Rightarrow> js_object list \<Rightarrow> 'd list option \<Rightarrow> 'e list option
     \<Rightarrow> ('d, 'e) message_event list" where
  "produceMeetingMessageDocuments M resources documents errs =
     (if resources = [] then [MessageCallback errs (or_empty documents)]
      else if truthy (lookup (last resources) ''messages'')
      then CreateMessageSearchDocuments (lookup (last resources) ''id'')
             (lookup (last resources) ''messages'')
           # produceMeetingMessageDocuments M (butlast resources)
               (Some (union_arrays (or_empty documents)
                        (createMessageSearchDocuments M (lookup (last resources) ''id'')
                           (lookup (last resources) ''messages''))))
               errs
      else CreateAllMessageSearchDocuments (lookup (last resources) ''id'')
           # produceMeetingMessageDocuments M (butlast resources)
               (Some (union_arrays (or_empty documents)
                        (snd (createAllMessageSearchDocuments M (lookup (last resources) ''id'')))))
               (case fst (createAllMessageSearchDocuments M (lookup (last resources) ''id'')) of
                  None \<Rightarrow> errs
                | Some err \<Rightarrow> Some (union_arrays (or_empty errs) [err])))"
  by pat_completeness auto
termination
  by (relation "measure (\<lambda>(M, resources, documents, errs). length resources)") auto

declare produceMeetingMessageDocuments.simps [simp del]

text \<open>
  What one resource contributes when its turn comes: the call made to the message box
  module, the documents that call yields and the error it reports, if any.
\<close>

definition resource_event :: "js_object \<Rightarrow> ('d, 'e) message_event" where
  "resource_event resource =
     (if truthy (lookup resource ''messages'')
      then CreateMessageSearchDocuments (lookup resource ''id'') (lookup resource ''messages'')
      else CreateAllMessageSearchDocuments (lookup resource ''id''))"

definition resource_documents :: "('d, 'e) messagebox \<Rightarrow> js_object \<Rightarrow> 'd list" where
  "resource_documents M resource =
     (if truthy (lookup resource ''messages'')
      then createMessageSearchDocuments M (lookup resource ''id'') (lookup resource ''messages'')
      else snd (createAllMessageSearchDocuments M (lookup resource ''id'')))"

definition resource_errors :: "('d, 'e) messagebox \<Rightarrow> js_object \<Rightarrow> 'e list" where
  "resource_errors M resource =
     (if truthy (lookup resource ''messages'') then []
      else (case fst (createAllMessageSearchDocuments M (lookup resource ''id'')) of
              None \<Rightarrow> []
            | Some err \<Rightarrow> [err]))"

fun is_callback :: "('d, 'e) message_event \<Rightarrow> bool" where
  "is_callback (MessageCallback errs documents) = True"
| "is_callback ev = False"

section \<open>Example inputs\<close>

text \<open>
  Concrete inputs on which the statements below are evaluated. List reversal stands in for
  the hash, and the parser and the HTTP layer are small tables.
\<close>

definition example_externals :: externals where
  "example_externals =
     \<lparr> sha1 = rev, encodeURIComponent = (\<lambda>s. s),
       getValue = (\<lambda>tenantAlias module key.
         if key = ''endpoint'' then ''http://bbb.example/'' else ''s3'') \<rparr>"

definition refused :: jsval where
  "refused = JObj [(''code'', JStr ''ECONNREFUSED'')]"

definition unclosed :: jsval where
  "unclosed = JObj [(''message'', JStr ''Unclosed root tag'')]"

definition running :: jsval where
  "running =
     JObj [(''returncode'', JArr [JStr ''SUCCESS'']), (''moderatorPW'', JArr [JStr ''mp'']),
           (''attendeePW'', JArr [JStr ''ap''])]"

definition notFound :: jsval where
  "notFound =
     JObj [(''returncode'', JArr [JStr ''FAILED'']), (''messageKey'', JArr [JStr ''notFound''])]"

definition example_parse :: xml_parser where
  "example_parse chunk =
     (if chunk = ''<response>running</response>'' then (JNull, JObj [(''response'', running)])
      else if chunk = ''<response>notFound</response>'' then (JNull, JObj [(''response'', notFound)])
      else if chunk = ''<html/>'' then (JNull, JObj [(''html'', JStr [])])
      else (unclosed, JUndefined))"

definition example_http :: http where
  "example_http url =
     (if url = ''http://down.example/api/x'' then RequestError refused
      else if url = ''http://bbb.example/api/cut'' then Response [''<response>'']
      else if url = ''http://bbb.example/api/html'' then Response [''<html/>'']
      else Response [''<response>running</response>''])"

text \<open>
  A server on which the meeting does not exist yet: it answers \<^verbatim>\<open>notFound\<close> to
  everything but the \<^verbatim>\<open>create\<close> call for the example meeting.
\<close>

definition empty_server :: http where
  "empty_server url =
     (if url = ''http://bbb.example/api/create?meetingID=3s1:mac:m&checksum=3sm:cam:1s3=DIgniteemetaerc''
      then Response [''<response>running</response>'']
      else Response [''<response>notFound</response>''])"

definition example_ctx :: ctx where
  "example_ctx = \<lparr>ctx_tenant = \<lparr>tenant_alias = ''cam''\<rparr>\<rparr>"

definition example_meeting :: meetingProfile where
  "example_meeting = \<lparr>mp_id = ''m:cam:1'', mp_displayName = ''Weekly''\<rparr>"

definition example_user :: user where
  "example_user = \<lparr>user_displayName = ''Ann''\<rparr>"

text \<open>
  Two meetings, the second without a description; a data access object that fails for one
  id; resources with and without an embedded meeting; and a message box whose documents
  are strings.
\<close>

definition example_meeting_object :: jsval where
  "example_meeting_object =
     JObj [(''id'', JStr ''m:cam:1''), (''tenant'', JObj [(''alias'', JStr ''cam'')]),
           (''displayName'', JStr ''Weekly''), (''description'', JStr ''Team sync''),
           (''visibility'', JStr ''public''), (''lastModified'', JNum 1400000000000)]"

definition example_meeting_plain :: jsval where
  "example_meeting_plain =
     JObj [(''id'', JStr ''m:cam:2''), (''tenant'', JObj [(''alias'', JStr ''cam'')]),
           (''displayName'', JStr ''Board''), (''description'', JStr []),
           (''visibility'', JStr ''private''), (''lastModified'', JNum 1400000000001)]"

definition example_dao :: "jsval list \<Rightarrow> jsval \<times> jsval list" where
  "example_dao meetingIds =
     (if meetingIds = [JStr ''m:cam:9''] then (JObj [(''code'', JNum 500)], [])
      else (JNull, map (\<lambda>i. JObj [(''id'', i), (''tenant'', JObj [(''alias'', JStr ''cam'')]),
                                  (''displayName'', JStr ''Weekly'')]) meetingIds))"

definition plain_resources :: "js_object list" where
  "plain_resources = [[(''id'', JStr ''m:cam:1'')], [(''id'', JStr ''m:cam:2'')]]"

definition embedded_resources :: "js_object list" where
  "embedded_resources =
     [[(''id'', JStr ''m:cam:1'')],
      [(''id'', JStr ''m:cam:2''), (''meeting'', JObj [(''id'', JStr ''m:cam:2'')])]]"

definition example_messagebox :: "(string, string) messagebox" where
  "example_messagebox =
     \<lparr> createMessageSearchDocuments =
         (\<lambda>resourceId messages.
            case messages of
              JArr ms \<Rightarrow> map (\<lambda>m. js_to_string resourceId @ ''#'' @ js_to_string m) ms
            | _ \<Rightarrow> []),
       createAllMessageSearchDocuments =
         (\<lambda>resourceId.
            if resourceId = JStr ''m:cam:3'' then (Some ''unavailable'', [])
            else (None, [js_to_string resourceId @ ''#a'', js_to_string resourceId @ ''#b''])) \<rparr>"

definition example_resources :: "js_object list" where
  "example_resources =
     [[(''id'', JStr ''m:cam:1''), (''messages'', JArr [JStr ''a'', JStr ''c''])],
      [(''id'', JStr ''m:cam:3'')],
      [(''id'', JStr ''m:cam:1'')]]"

section \<open>Properties\<close>

subsection \<open>Signing\<close>

text \<open>
  C1. For all strings \<open>endpoint\<close>, \<open>action\<close>, \<open>secret\<close> and \<open>params\<close>,
  \<^verbatim>\<open>_getBBBActionURL\<close> returns exactly
  \<^verbatim>\<open>endpoint + 'api/' + action + '?' + params + '&checksum=' + sha1(action + params + secret)\<close>:
  the URL is signed with the hash of the action, the parameters and the secret, in that
  order, and of nothing else.
\<close>

theorem getBBBActionURL_signed:
  "getBBBActionURL E endpoint' action secret' params =
     endpoint' @ ''api/'' @ action @ ''?'' @ params @ ''&checksum=''
       @ sha1 E (action @ params @ secret')"
  by (simp add: getBBBActionURL_def getChecksum_def)

theorem getBBBActionURL_signed_witness:
  "getBBBActionURL example_externals ''http://bbb.example/'' ''join'' ''s3'' ''a=1'' =
     ''http://bbb.example/api/join?a=1&checksum=3s1=anioj''"
  using getBBBActionURL_signed
    [of example_externals "''http://bbb.example/''" "''join''" "''s3''" "''a=1''"]
  by (simp add: example_externals_def)

text \<open>
  C6. For every tenant alias, \<^verbatim>\<open>_getConfig\<close> returns an object with the two fields
  \<open>endpoint\<close> and \<open>secret\<close>, each the value the configuration store holds under the
  tenant, \<^verbatim>\<open>bbb\<close> and the field's name; \<^verbatim>\<open>_getVerifiedBBBEndpoint\<close> is the identity,
  so the endpoint is returned as stored, with no \<^verbatim>\<open>/\<close> added.
\<close>

theorem getConfig_fields:
  "getConfig E tenantAlias =
     \<lparr> endpoint = getValue E tenantAlias ''bbb'' ''endpoint'',
       secret = getValue E tenantAlias ''bbb'' ''secret'' \<rparr>
   \<and> getVerifiedBBBEndpoint e = e"
  by (simp add: getConfig_def getVerifiedBBBEndpoint_def)

theorem getConfig_fields_witness:
  "getConfig example_externals ''cam'' = \<lparr> endpoint = ''http://bbb.example/'', secret = ''s3'' \<rparr>
   \<and> getVerifiedBBBEndpoint ''http://bbb.example'' = ''http://bbb.example''"
  using getConfig_fields [of example_externals "''cam''" "''http://bbb.example''"]
  by (simp add: example_externals_def)

lemma substring_same: "substring s a a = []"
  by (simp add: substring_def Let_def)

text \<open>
  C8. The attendee password \<^verbatim>\<open>getJoinMeetingURL\<close> computes before it contacts
  BigBlueButton is \<^verbatim>\<open>sha1(config.secret)\<close>: \<^verbatim>\<open>meetingID.substring(8,8)\<close> is the empty
  string for every \<^verbatim>\<open>meetingID\<close>. Two calls under the same tenant, for any two meeting
  profiles and users, compute the same attendee password.
\<close>

theorem attendeePW_constant:
  "attendeePW (getJoinMeetingURL_vars E c meetingProfile usr) =
       JStr (sha1 E (secret (getConfig E (tenant_alias (ctx_tenant c)))))
   \<and> substring meetingID 8 8 = []
   \<and> attendeePW (getJoinMeetingURL_vars E c meetingProfile usr) =
       attendeePW (getJoinMeetingURL_vars E c meetingProfile' usr')"
  by (simp add: getJoinMeetingURL_vars_def Let_def substring_same)

theorem attendeePW_constant_witness:
  "attendeePW (getJoinMeetingURL_vars example_externals \<lparr>ctx_tenant = \<lparr>tenant_alias = ''cam''\<rparr>\<rparr>
       \<lparr>mp_id = ''m:cam:1'', mp_displayName = ''Weekly''\<rparr> \<lparr>user_displayName = ''Ann''\<rparr>) =
     JStr ''3s''
   \<and> substring ''0123456789abcdef'' 8 8 = []
   \<and> attendeePW (getJoinMeetingURL_vars example_externals \<lparr>ctx_tenant = \<lparr>tenant_alias = ''cam''\<rparr>\<rparr>
       \<lparr>mp_id = ''m:cam:1'', mp_displayName = ''Weekly''\<rparr> \<lparr>user_displayName = ''Ann''\<rparr>) =
     attendeePW (getJoinMeetingURL_vars example_externals \<lparr>ctx_tenant = \<lparr>tenant_alias = ''cam''\<rparr>\<rparr>
       \<lparr>mp_id = ''m:cam:2'', mp_displayName = ''Board''\<rparr> \<lparr>user_displayName = ''Bo''\<rparr>)"
  using attendeePW_constant [of example_externals "\<lparr>ctx_tenant = \<lparr>tenant_alias = ''cam''\<rparr>\<rparr>"
      "\<lparr>mp_id = ''m:cam:1'', mp_displayName = ''Weekly''\<rparr>" "\<lparr>user_displayName = ''Ann''\<rparr>"
      "''0123456789abcdef''"
      "\<lparr>mp_id = ''m:cam:2'', mp_displayName = ''Board''\<rparr>" "\<lparr>user_displayName = ''Bo''\<rparr>"]
  by (auto simp add: example_externals_def getConfig_def)

subsection \<open>The proxy\<close>

lemma feed_single: "feed h s [d] = h s d"
  by (simp split: prod.splits)

lemma feed_events_all:
  "\<forall>d\<in>set ds. \<not> fatal (f d) \<Longrightarrow> snd (feed (\<lambda>u d. (u, [f d])) () ds) = map f ds"
  by (induction ds) (auto split: prod.splits)

lemma feed_Cons_events: "\<exists>s' evs'. feed h s (d # ds) = (s', snd (h s d) @ evs')"
  by (auto split: prod.splits)

lemma requests_append: "requests (xs @ ys) = requests xs @ requests ys"
  by (induction xs rule: requests.induct) simp_all

lemma onData_no_request: "requests [executeBBBCall_onData parse chunk] = []"
  by (cases "parse chunk")
    (simp add: executeBBBCall_onData_def executeBBBCall_onParsed_def split: sum.splits)

lemma requests_Cons_eq: "requests (ev # evs) = requests [ev] @ requests evs"
  by (cases ev) simp_all

lemma feed_onData_no_request:
  "requests (snd (feed (\<lambda>u chunk. (u, [executeBBBCall_onData parse chunk])) s chunks)) = []"
proof (induction chunks arbitrary: s)
  case Nil
  then show ?case by simp
next
  case (Cons chunk chunks)
  obtain s' evs where f: "feed (\<lambda>u chunk. (u, [executeBBBCall_onData parse chunk])) s chunks = (s', evs)"
    by (cases "feed (\<lambda>u chunk. (u, [executeBBBCall_onData parse chunk])) s chunks")
  have "requests evs = []"
    using Cons.IH [of s] f by simp
  then have "requests (executeBBBCall_onData parse chunk # evs) = []"
    using requests_Cons_eq [of "executeBBBCall_onData parse chunk" evs] onData_no_request [of parse chunk]
    by simp
  then show ?case
    using f onData_no_request [of parse chunk] by simp
qed

lemma outcome_no_request: "requests (executeBBBCall_outcome http parse url) = []"
proof (cases "http url")
  case (RequestError e)
  then show ?thesis by (simp add: executeBBBCall_outcome_def)
next
  case (Response chunks)
  then show ?thesis
    using feed_onData_no_request [of parse "()" chunks] by (simp add: executeBBBCall_outcome_def)
qed

text \<open>
  C2, as the code has it. A request that fails is not reported to the callback: the proxy
  registers no listener for the \<^verbatim>\<open>error\<close> event of the request. Here the request to a
  server that is down is sent once, the error is emitted on the request, and the callback
  is never invoked.
\<close>

theorem executeBBBCall_request_error_counterexample:
  "example_http ''http://down.example/api/x'' = RequestError refused
   \<and> executeBBBCall example_http example_parse ''http://down.example/api/x'' =
       [HttpRequest ''http://down.example/api/x'', ErrorEvent refused]"
  by (simp add: executeBBBCall_def executeBBBCall_outcome_def example_http_def)

text \<open>
  C2, amended. Whenever the XML parse of a response chunk fails with an error, the proxy
  invokes its callback with that error as the only argument, unchanged; for a response all
  of whose chunks fail to parse, the callback is invoked once per chunk with the chunk's
  error. Whatever the outcome, one request is sent: nothing is retried.
\<close>

theorem executeBBBCall_parse_error:
  "(parse chunk = (err, result) \<longrightarrow> truthy err \<longrightarrow>
      executeBBBCall_onData parse chunk = Callback [err])
   \<and> (http url = Response chunks \<longrightarrow> (\<forall>c\<in>set chunks. truthy (fst (parse c))) \<longrightarrow>
        executeBBBCall http parse url = HttpRequest url # map (\<lambda>c. Callback [fst (parse c)]) chunks)
   \<and> requests (executeBBBCall http parse url') = [url']"
proof (intro conjI impI)
  assume "parse chunk = (err, result)" "truthy err"
  then show "executeBBBCall_onData parse chunk = Callback [err]"
    by (simp add: executeBBBCall_onData_def executeBBBCall_onParsed_def)
next
  assume r: "http url = Response chunks" and t: "\<forall>c\<in>set chunks. truthy (fst (parse c))"
  have od: "executeBBBCall_onData parse c = Callback [fst (parse c)]" if "c \<in> set chunks" for c
    using t that
    by (cases "parse c") (auto simp add: executeBBBCall_onData_def executeBBBCall_onParsed_def)
  then have "\<forall>c\<in>set chunks. \<not> fatal (executeBBBCall_onData parse c)"
    by simp
  then have "snd (feed (\<lambda>u c. (u, [executeBBBCall_onData parse c])) () chunks) =
      map (executeBBBCall_onData parse) chunks"
    by (rule feed_events_all)
  also have "\<dots> = map (\<lambda>c. Callback [fst (parse c)]) chunks"
    using od by simp
  finally show "executeBBBCall http parse url =
      HttpRequest url # map (\<lambda>c. Callback [fst (parse c)]) chunks"
    using r by (simp add: executeBBBCall_def executeBBBCall_outcome_def)
next
  show "requests (executeBBBCall http parse url') = [url']"
    by (simp add: executeBBBCall_def outcome_no_request)
qed

theorem executeBBBCall_parse_error_witness:
  "executeBBBCall_onData example_parse ''<response>'' = Callback [unclosed]
   \<and> executeBBBCall example_http example_parse ''http://bbb.example/api/cut'' =
       [HttpRequest ''http://bbb.example/api/cut'', Callback [unclosed]]
   \<and> requests (executeBBBCall example_http example_parse ''http://down.example/api/x'') =
       [''http://down.example/api/x'']"
proof -
  have p: "example_parse ''<response>'' = (unclosed, JUndefined)"
    by (simp add: example_parse_def)
  have t: "truthy unclosed"
    by (simp add: unclosed_def)
  have h: "example_http ''http://bbb.example/api/cut'' = Response [''<response>'']"
    by (simp add: example_http_def)
  have a: "\<forall>c\<in>set [''<response>'']. truthy (fst (example_parse c))"
    using p t by simp
  show ?thesis
    using executeBBBCall_parse_error [of example_parse "''<response>''" unclosed JUndefined
        example_http "''http://bbb.example/api/cut''" "[''<response>'']"
        "''http://down.example/api/x''"] p t h a
    by simp
qed

text \<open>
  C3, as the code has it. A chunk can parse without error into a document whose root is
  not \<^verbatim>\<open>response\<close>; then \<^verbatim>\<open>result['response']\<close> is \<^verbatim>\<open>undefined\<close>, reading its
  \<^verbatim>\<open>returncode\<close> throws a TypeError and the callback is not invoked.
\<close>

theorem executeBBBCall_no_response_counterexample:
  "example_http ''http://bbb.example/api/html'' = Response [''<html/>'']
   \<and> example_parse ''<html/>'' = (JNull, JObj [(''html'', JStr [])])
   \<and> executeBBBCall example_http example_parse ''http://bbb.example/api/html'' =
       [HttpRequest ''http://bbb.example/api/html'', Throws TypeError]"
  by (simp add: executeBBBCall_def executeBBBCall_outcome_def example_http_def example_parse_def
      executeBBBCall_onData_def executeBBBCall_onParsed_def js_get_def lookup_def)

lemma js_prop_not_nullish: "\<not> nullish (js_prop v k) \<Longrightarrow> \<not> nullish v"
  by (cases v) simp_all

text \<open>
  C3, amended. When the XML parse of a response chunk succeeds and the parsed result has a
  \<^verbatim>\<open>response\<close> member that is not \<^verbatim>\<open>undefined\<close> or \<^verbatim>\<open>null\<close>, the proxy invokes its
  callback with a \<^verbatim>\<open>null\<close> error and that member, unchanged, whatever its
  \<^verbatim>\<open>returncode\<close> is: a failure reported by BigBlueButton is not told apart from a success.
\<close>

theorem executeBBBCall_success:
  assumes "parse chunk = (err, result)" and "\<not> truthy err"
    and "\<not> nullish (js_prop result ''response'')"
  shows "executeBBBCall_onData parse chunk = Callback [JNull, js_prop result ''response'']
    \<and> (http url = Response [chunk] \<longrightarrow>
         executeBBBCall http parse url =
           [HttpRequest url, Callback [JNull, js_prop result ''response'']])"
  using assms js_prop_not_nullish [OF assms(3)]
  by (simp add: executeBBBCall_def executeBBBCall_outcome_def executeBBBCall_onData_def
      executeBBBCall_onParsed_def js_get_def)

theorem executeBBBCall_success_witness:
  "executeBBBCall_onData example_parse ''<response>running</response>'' = Callback [JNull, running]
   \<and> executeBBBCall example_http example_parse ''http://bbb.example/api/getMeetingInfo'' =
       [HttpRequest ''http://bbb.example/api/getMeetingInfo'', Callback [JNull, running]]
   \<and> executeBBBCall_onData example_parse ''<response>notFound</response>'' = Callback [JNull, notFound]"
proof -
  have p: "example_parse ''<response>running</response>'' = (JNull, JObj [(''response'', running)])"
    by (simp add: example_parse_def)
  have q: "example_parse ''<response>notFound</response>'' = (JNull, JObj [(''response'', notFound)])"
    by (simp add: example_parse_def)
  have h: "example_http ''http://bbb.example/api/getMeetingInfo'' =
      Response [''<response>running</response>'']"
    by (simp add: example_http_def)
  have r: "js_prop (JObj [(''response'', running)]) ''response'' = running"
    by (simp add: lookup_def)
  have r': "js_prop (JObj [(''response'', notFound)]) ''response'' = notFound"
    by (simp add: lookup_def)
  have n: "\<not> nullish running"
    by (simp add: running_def)
  have n': "\<not> nullish notFound"
    by (simp add: notFound_def)
  show ?thesis
    using executeBBBCall_success [of example_parse "''<response>running</response>''" JNull
        "JObj [(''response'', running)]" example_http "''http://bbb.example/api/getMeetingInfo''"]
      executeBBBCall_success [of example_parse "''<response>notFound</response>''" JNull
        "JObj [(''response'', notFound)]" example_http "''http://bbb.example/api/getMeetingInfo''"]
      p q h r r' n n'
    by simp
qed

subsection \<open>Joining a meeting\<close>

lemma getQueryStringParams_meetingID:
  "getQueryStringParams [(''meetingID'', JStr m)] = ''meetingID='' @ m"
  by (simp add: getQueryStringParams_def)

lemma getQueryStringParams_join:
  "getQueryStringParams (joinParams vars) =
     ''meetingID='' @ jv_meetingID vars @ ''&fullName='' @ jv_fullName vars
       @ ''&password='' @ js_to_string (moderatorPW vars)"
  by (simp add: getQueryStringParams_def joinParams_def)

lemma joinURL_eq:
  "joinURL E vars =
     endpoint (jv_config vars) @ ''api/join?'' @ getQueryStringParams (joinParams vars)
       @ ''&checksum='' @ sha1 E (''join'' @ getQueryStringParams (joinParams vars) @ secret (jv_config vars))"
  by (simp add: joinURL_def getBBBActionURL_def getChecksum_def)

lemma onMeetingInfo_ok:
  assumes "\<not> truthy err" and "\<not> nullish meetingInfo"
  shows "onMeetingInfo E vars [err, meetingInfo] =
     (if meetingNotFound meetingInfo
      then (vars,
            [HttpRequest (getCreateMeetingURL E vars),
             Callback [JNull, JObj [(''url'', JStr (joinURL E vars))]]],
            [getCreateMeetingURL E vars])
      else (vars\<lparr> moderatorPW := js_prop meetingInfo ''moderatorPW'',
                  attendeePW := js_prop meetingInfo ''attendeePW'' \<rparr>,
            [Callback [JNull, JObj [(''url'', JStr (joinURL E
               (vars\<lparr> moderatorPW := js_prop meetingInfo ''moderatorPW'',
                       attendeePW := js_prop meetingInfo ''attendeePW'' \<rparr>)))]]],
            []))"
  using assms by (simp add: onMeetingInfo_def arg_def Let_def)

lemma outcome_not_nullish:
  assumes "executeBBBCall_outcome http parse url = Callback [JNull, meetingInfo] # rest"
  shows "\<not> nullish meetingInfo"
proof -
  have p: "executeBBBCall_onParsed err result = Callback [JNull, meetingInfo] \<Longrightarrow> \<not> nullish meetingInfo"
    for err result
    by (auto simp add: executeBBBCall_onParsed_def js_get_def split: if_splits)
  show ?thesis
  proof (cases "http url")
    case (RequestError e)
    with assms show ?thesis by (simp add: executeBBBCall_outcome_def)
  next
    case (Response chunks)
    show ?thesis
    proof (cases chunks)
      case Nil
      with Response assms show ?thesis by (simp add: executeBBBCall_outcome_def)
    next
      case (Cons chunk cs)
      obtain s' evs' where "feed (\<lambda>u chunk. (u, [executeBBBCall_onData parse chunk])) () (chunk # cs)
          = (s', snd ((), [executeBBBCall_onData parse chunk]) @ evs')"
        using feed_Cons_events [of "\<lambda>u chunk. (u, [executeBBBCall_onData parse chunk])" "()" chunk cs]
        by auto
      with Response Cons assms have "executeBBBCall_onData parse chunk = Callback [JNull, meetingInfo]"
        by (simp add: executeBBBCall_outcome_def)
      then show ?thesis
        using p by (cases "parse chunk") (simp add: executeBBBCall_onData_def)
    qed
  qed
qed

text \<open>
  C4. Whenever the \<^verbatim>\<open>getMeetingInfo\<close> call returns without error, \<^verbatim>\<open>getJoinMeetingURL\<close>
  invokes its callback with a \<^verbatim>\<open>null\<close> error and an object whose only field \<open>url\<close> is
  the signed \<^verbatim>\<open>join\<close> URL: the endpoint, \<^verbatim>\<open>api/join?\<close>, the parameters,
  \<^verbatim>\<open>&checksum=\<close> and the hash of \<^verbatim>\<open>join\<close>, the parameters and the secret, where the
  parameters are \<open>meetingID\<close>, \<open>fullName\<close> and \<open>password\<close>, in that order, joined by
  \<^verbatim>\<open>&\<close>. The password is the moderator password of the response, or the one computed
  from the meeting id when the meeting was not found. This holds whether or not a
  \<^verbatim>\<open>create\<close> call is issued, and whatever that call returns.
\<close>

theorem getJoinMeetingURL_join_url:
  assumes "executeBBBCall_outcome http parse
             (getMeetingInfoURL E (getJoinMeetingURL_vars E c meetingProfile usr)) =
           Callback [JNull, meetingInfo] # rest"
  shows "let cfg = getConfig E (tenant_alias (ctx_tenant c));
             meetingID = sha1 E (mp_id meetingProfile @ secret cfg);
             password =
               (if loose_eq_lit (js_prop meetingInfo ''returncode'') ''FAILED''
                   \<and> loose_eq_lit (js_prop meetingInfo ''messageKey'') ''notFound''
                then JStr (sha1 E (substring meetingID 0 8 @ secret cfg))
                else js_prop meetingInfo ''moderatorPW'');
             params = ''meetingID='' @ meetingID
               @ ''&fullName='' @ encodeURIComponent E (user_displayName usr)
               @ ''&password='' @ js_to_string password
         in Callback [JNull, JObj [(''url'',
              JStr (endpoint cfg @ ''api/join?'' @ params @ ''&checksum=''
                      @ sha1 E (''join'' @ params @ secret cfg)))]]
            \<in> set (getJoinMeetingURL E http parse c meetingProfile usr)"
proof -
  define vars where "vars = getJoinMeetingURL_vars E c meetingProfile usr"
  define vars' where "vars' = (if meetingNotFound meetingInfo then vars
     else vars\<lparr> moderatorPW := js_prop meetingInfo ''moderatorPW'',
                attendeePW := js_prop meetingInfo ''attendeePW'' \<rparr>)"
  have nn: "\<not> nullish meetingInfo"
    using assms by (rule outcome_not_nullish)
  have ev: "Callback [JNull, JObj [(''url'', JStr (joinURL E vars'))]]
      \<in> set (snd (deliverInfo E (vars, []) (Callback [JNull, meetingInfo])))"
    using nn by (simp add: deliverInfo_def onMeetingInfo_ok vars'_def)
  obtain s' evs' where f: "feed (deliverInfo E) (vars, []) (Callback [JNull, meetingInfo] # rest) =
      (s', snd (deliverInfo E (vars, []) (Callback [JNull, meetingInfo])) @ evs')"
    using feed_Cons_events [of "deliverInfo E" "(vars, [])" "Callback [JNull, meetingInfo]" rest]
    by auto
  have "Callback [JNull, JObj [(''url'', JStr (joinURL E vars'))]]
      \<in> set (getJoinMeetingURL E http parse c meetingProfile usr)"
    using assms ev f
    by (cases s') (auto simp add: getJoinMeetingURL_def vars_def [symmetric] Let_def)
  moreover have "joinURL E vars' =
     (let cfg = getConfig E (tenant_alias (ctx_tenant c));
             meetingID = sha1 E (mp_id meetingProfile @ secret cfg);
             password =
               (if loose_eq_lit (js_prop meetingInfo ''returncode'') ''FAILED''
                   \<and> loose_eq_lit (js_prop meetingInfo ''messageKey'') ''notFound''
                then JStr (sha1 E (substring meetingID 0 8 @ secret cfg))
                else js_prop meetingInfo ''moderatorPW'');
             params = ''meetingID='' @ meetingID
               @ ''&fullName='' @ encodeURIComponent E (user_displayName usr)
               @ ''&password='' @ js_to_string password
      in endpoint cfg @ ''api/join?'' @ params @ ''&checksum=''
                      @ sha1 E (''join'' @ params @ secret cfg))"
    by (simp add: joinURL_eq getQueryStringParams_join vars'_def vars_def
        getJoinMeetingURL_vars_def meetingNotFound_def Let_def)
  ultimately show ?thesis
    by (simp add: Let_def)
qed

lemma deliverCreate_no_request:
  "requests [d] = [] \<Longrightarrow> requests (snd (deliverCreate vars d)) = []"
  by (cases d) (simp_all add: deliverCreate_def onCreate_def Let_def)

lemma feed_deliverCreate_no_request:
  "requests ds = [] \<Longrightarrow> requests (snd (feed deliverCreate vars ds)) = []"
proof (induction ds arbitrary: vars)
  case Nil
  then show ?case by simp
next
  case (Cons d ds)
  have d: "requests [d] = []" and ds: "requests ds = []"
    using Cons.prems by (cases d; simp)+
  obtain v' evs where h: "deliverCreate vars d = (v', evs)"
    by (cases "deliverCreate vars d")
  have "requests evs = []"
    using deliverCreate_no_request [OF d, of vars] h by simp
  moreover obtain v'' evs' where f: "feed deliverCreate v' ds = (v'', evs')"
    by (cases "feed deliverCreate v' ds")
  moreover have "requests evs' = []"
    using Cons.IH [OF ds, of v'] f by simp
  ultimately show ?case
    using h by (simp add: requests_append)
qed

lemma getJoinMeetingURL_single:
  assumes "executeBBBCall_outcome http parse
             (getMeetingInfoURL E (getJoinMeetingURL_vars E c meetingProfile usr)) =
           [Callback [JNull, meetingInfo]]"
  shows "getJoinMeetingURL E http parse c meetingProfile usr =
     (let vars = getJoinMeetingURL_vars E c meetingProfile usr
      in HttpRequest (getMeetingInfoURL E vars) #
         (if meetingNotFound meetingInfo
          then [HttpRequest (getCreateMeetingURL E vars),
                Callback [JNull, JObj [(''url'', JStr (joinURL E vars))]]]
               @ snd (feed deliverCreate vars
                        (executeBBBCall_outcome http parse (getCreateMeetingURL E vars)))
          else [Callback [JNull, JObj [(''url'', JStr (joinURL E
                  (vars\<lparr> moderatorPW := js_prop meetingInfo ''moderatorPW'',
                          attendeePW := js_prop meetingInfo ''attendeePW'' \<rparr>)))]]]))"
proof -
  have nn: "\<not> nullish meetingInfo"
    using assms by (rule outcome_not_nullish)
  show ?thesis
    using assms nn
    by (simp add: getJoinMeetingURL_def Let_def feed_single deliverInfo_def onMeetingInfo_ok
        del: feed.simps(2))
qed


lemmas example_defs =
  example_externals_def example_ctx_def example_meeting_def example_user_def example_parse_def
  getJoinMeetingURL_vars_def getMeetingInfoURL_def getBBBActionURL_def getChecksum_def
  getQueryStringParams_def getConfig_def getVerifiedBBBEndpoint_def substring_def joinParams_def
  joinURL_def

text \<open>
  C5. When the \<^verbatim>\<open>getMeetingInfo\<close> call returns one response without error,
  \<^verbatim>\<open>getJoinMeetingURL\<close> sends a request to the signed \<^verbatim>\<open>create\<close> URL if and only if
  the \<^verbatim>\<open>returncode\<close> of the response equals \<^verbatim>\<open>FAILED\<close> and its \<^verbatim>\<open>messageKey\<close>
  equals \<^verbatim>\<open>notFound\<close> (equality being that of \<^verbatim>\<open>==\<close>). The requests of the run are the
  \<^verbatim>\<open>getMeetingInfo\<close> request and, in that case only, the \<^verbatim>\<open>create\<close> request; for any
  other response the run is the \<^verbatim>\<open>getMeetingInfo\<close> request followed at once by the
  callback with the join URL.
\<close>

theorem getJoinMeetingURL_create_iff:
  assumes "executeBBBCall_outcome http parse
             (getMeetingInfoURL E (getJoinMeetingURL_vars E c meetingProfile usr)) =
           [Callback [JNull, meetingInfo]]"
  shows "let vars = getJoinMeetingURL_vars E c meetingProfile usr;
             cfg = getConfig E (tenant_alias (ctx_tenant c));
             meetingID = sha1 E (mp_id meetingProfile @ secret cfg);
             createURL = endpoint cfg @ ''api/create?meetingID='' @ meetingID @ ''&checksum=''
               @ sha1 E (''create'' @ ''meetingID='' @ meetingID @ secret cfg);
             notFound' =
               (loose_eq_lit (js_prop meetingInfo ''returncode'') ''FAILED''
                \<and> loose_eq_lit (js_prop meetingInfo ''messageKey'') ''notFound'');
             trace = getJoinMeetingURL E http parse c meetingProfile usr
         in requests trace = getMeetingInfoURL E vars # (if notFound' then [createURL] else [])
            \<and> (createURL \<in> set (requests trace)) = notFound'
            \<and> (\<not> notFound' \<longrightarrow>
                 trace =
                   [HttpRequest (getMeetingInfoURL E vars),
                    Callback [JNull, JObj [(''url'', JStr (joinURL E
                      (vars\<lparr> moderatorPW := js_prop meetingInfo ''moderatorPW'',
                              attendeePW := js_prop meetingInfo ''attendeePW'' \<rparr>)))]]])"
proof -
  define vars where "vars = getJoinMeetingURL_vars E c meetingProfile usr"
  define trace where "trace = getJoinMeetingURL E http parse c meetingProfile usr"
  define nf where "nf = meetingNotFound meetingInfo"
  have cu: "getCreateMeetingURL E vars =
      (let cfg = getConfig E (tenant_alias (ctx_tenant c));
           meetingID = sha1 E (mp_id meetingProfile @ secret cfg)
       in endpoint cfg @ ''api/create?meetingID='' @ meetingID @ ''&checksum=''
            @ sha1 E (''create'' @ ''meetingID='' @ meetingID @ secret cfg))"
    by (simp add: getCreateMeetingURL_def getBBBActionURL_def getChecksum_def
        getQueryStringParams_meetingID vars_def getJoinMeetingURL_vars_def Let_def)
  have ne: "getCreateMeetingURL E vars \<noteq> getMeetingInfoURL E vars"
    by (simp add: getCreateMeetingURL_def getMeetingInfoURL_def getBBBActionURL_def)
  have t: "trace = HttpRequest (getMeetingInfoURL E vars) #
         (if nf
          then [HttpRequest (getCreateMeetingURL E vars),
                Callback [JNull, JObj [(''url'', JStr (joinURL E vars))]]]
               @ snd (feed deliverCreate vars
                        (executeBBBCall_outcome http parse (getCreateMeetingURL E vars)))
          else [Callback [JNull, JObj [(''url'', JStr (joinURL E
                  (vars\<lparr> moderatorPW := js_prop meetingInfo ''moderatorPW'',
                          attendeePW := js_prop meetingInfo ''attendeePW'' \<rparr>)))]]])"
    using getJoinMeetingURL_single [OF assms]
    by (simp add: trace_def vars_def nf_def Let_def)
  have quiet: "requests (snd (feed deliverCreate vars
      (executeBBBCall_outcome http parse (getCreateMeetingURL E vars)))) = []"
    by (rule feed_deliverCreate_no_request) (rule outcome_no_request)
  have r: "requests trace =
      getMeetingInfoURL E vars # (if nf then [getCreateMeetingURL E vars] else [])"
    using quiet by (simp add: t requests_append)
  have m: "(getCreateMeetingURL E vars \<in> set (requests trace)) = nf"
    using ne by (simp add: r)
  have d: "\<not> nf \<longrightarrow> trace =
      [HttpRequest (getMeetingInfoURL E vars),
       Callback [JNull, JObj [(''url'', JStr (joinURL E
         (vars\<lparr> moderatorPW := js_prop meetingInfo ''moderatorPW'',
                 attendeePW := js_prop meetingInfo ''attendeePW'' \<rparr>)))]]]"
    by (simp add: t)
  show ?thesis
    using r m d
    unfolding Let_def vars_def [symmetric] trace_def [symmetric]
    by (simp add: cu [unfolded Let_def vars_def] nf_def meetingNotFound_def vars_def)
qed

lemmas proxy_defs =
  executeBBBCall_outcome_def executeBBBCall_onData_def executeBBBCall_onParsed_def js_get_def
  lookup_def running_def notFound_def

lemma example_info_url:
  "getMeetingInfoURL example_externals
     (getJoinMeetingURL_vars example_externals example_ctx example_meeting example_user) =
   ''http://bbb.example/api/getMeetingInfo?meetingID=3s1:mac:m&checksum=3sm:cam:1s3=DIgniteemofnIgniteeMteg''"
  by (simp add: example_defs)

lemma example_running:
  "executeBBBCall_outcome example_http example_parse
     (getMeetingInfoURL example_externals
        (getJoinMeetingURL_vars example_externals example_ctx example_meeting example_user)) =
   [Callback [JNull, running]]"
  by (simp add: example_info_url example_http_def example_parse_def proxy_defs)

lemma example_notFound:
  "executeBBBCall_outcome empty_server example_parse
     (getMeetingInfoURL example_externals
        (getJoinMeetingURL_vars example_externals example_ctx example_meeting example_user)) =
   [Callback [JNull, notFound]]"
  by (simp add: example_info_url empty_server_def example_parse_def proxy_defs)

theorem getJoinMeetingURL_join_url_witness:
  "executeBBBCall_outcome example_http example_parse
     (getMeetingInfoURL example_externals
        (getJoinMeetingURL_vars example_externals example_ctx example_meeting example_user)) =
   [Callback [JNull, running]]
   \<and> Callback [JNull, JObj [(''url'', JStr
        ''http://bbb.example/api/join?meetingID=3s1:mac:m&fullName=Ann&password=mp&checksum=3spm=drowssap&nnA=emaNlluf&m:cam:1s3=DIgniteemnioj'')]]
       \<in> set (getJoinMeetingURL example_externals example_http example_parse
                 example_ctx example_meeting example_user)
   \<and> Callback [JNull, JObj [(''url'', JStr
        ''http://bbb.example/api/join?meetingID=3s1:mac:m&fullName=Ann&password=3s:cam:1s3&checksum=3s3s1:mac:s3=drowssap&nnA=emaNlluf&m:cam:1s3=DIgniteemnioj'')]]
       \<in> set (getJoinMeetingURL example_externals empty_server example_parse
                 example_ctx example_meeting example_user)"
proof -
  have a: "Callback [JNull, JObj [(''url'', JStr
        ''http://bbb.example/api/join?meetingID=3s1:mac:m&fullName=Ann&password=mp&checksum=3spm=drowssap&nnA=emaNlluf&m:cam:1s3=DIgniteemnioj'')]]
       \<in> set (getJoinMeetingURL example_externals example_http example_parse
                 example_ctx example_meeting example_user)"
    using getJoinMeetingURL_join_url [OF example_running]
    by (simp add: Let_def example_defs running_def lookup_def)
  have b: "Callback [JNull, JObj [(''url'', JStr
        ''http://bbb.example/api/join?meetingID=3s1:mac:m&fullName=Ann&password=3s:cam:1s3&checksum=3s3s1:mac:s3=drowssap&nnA=emaNlluf&m:cam:1s3=DIgniteemnioj'')]]
       \<in> set (getJoinMeetingURL example_externals empty_server example_parse
                 example_ctx example_meeting example_user)"
    using getJoinMeetingURL_join_url [OF example_notFound]
    by (simp add: Let_def example_defs notFound_def lookup_def)
  show ?thesis
    using example_running a b by simp
qed

theorem getJoinMeetingURL_create_iff_witness:
  "executeBBBCall_outcome empty_server example_parse
     (getMeetingInfoURL example_externals
        (getJoinMeetingURL_vars example_externals example_ctx example_meeting example_user)) =
   [Callback [JNull, notFound]]
   \<and> requests (getJoinMeetingURL example_externals empty_server example_parse
                  example_ctx example_meeting example_user) =
       [''http://bbb.example/api/getMeetingInfo?meetingID=3s1:mac:m&checksum=3sm:cam:1s3=DIgniteemofnIgniteeMteg'',
        ''http://bbb.example/api/create?meetingID=3s1:mac:m&checksum=3sm:cam:1s3=DIgniteemetaerc'']
   \<and> getJoinMeetingURL example_externals example_http example_parse
         example_ctx example_meeting example_user =
       [HttpRequest ''http://bbb.example/api/getMeetingInfo?meetingID=3s1:mac:m&checksum=3sm:cam:1s3=DIgniteemofnIgniteeMteg'',
        Callback [JNull, JObj [(''url'', JStr
          ''http://bbb.example/api/join?meetingID=3s1:mac:m&fullName=Ann&password=mp&checksum=3spm=drowssap&nnA=emaNlluf&m:cam:1s3=DIgniteemnioj'')]]]"
proof -
  have a: "requests (getJoinMeetingURL example_externals empty_server example_parse
                  example_ctx example_meeting example_user) =
       [''http://bbb.example/api/getMeetingInfo?meetingID=3s1:mac:m&checksum=3sm:cam:1s3=DIgniteemofnIgniteeMteg'',
        ''http://bbb.example/api/create?meetingID=3s1:mac:m&checksum=3sm:cam:1s3=DIgniteemetaerc'']"
    using getJoinMeetingURL_create_iff [OF example_notFound]
    by (simp add: Let_def example_defs notFound_def lookup_def)
  have b: "getJoinMeetingURL example_externals example_http example_parse
         example_ctx example_meeting example_user =
       [HttpRequest ''http://bbb.example/api/getMeetingInfo?meetingID=3s1:mac:m&checksum=3sm:cam:1s3=DIgniteemofnIgniteeMteg'',
        Callback [JNull, JObj [(''url'', JStr
          ''http://bbb.example/api/join?meetingID=3s1:mac:m&fullName=Ann&password=mp&checksum=3spm=drowssap&nnA=emaNlluf&m:cam:1s3=DIgniteemnioj'')]]]"
    using getJoinMeetingURL_create_iff [OF example_running]
    by (simp add: Let_def example_defs running_def lookup_def)
  show ?thesis
    using example_notFound a b by simp
qed

subsection \<open>Search documents\<close>

lemma lookup_Cons: "lookup ((k, v) # ps) k' = (if k = k' then v else lookup ps k')"
  by (simp add: lookup_def)

lemma lookup_Nil: "lookup [] k = JUndefined"
  by (simp add: lookup_def)

lemma truthy_not_nullish: "truthy v \<Longrightarrow> \<not> nullish v"
  by (cases v) simp_all

text \<open>
  C7. For every meeting with a tenant, the search document produced for it has
  \<open>resourceType\<close> \<^verbatim>\<open>meeting\<close>, the meeting's \<open>id\<close>, the alias of its tenant as
  \<open>tenantAlias\<close>, its \<open>displayName\<close> as \<open>q_high\<close> and as \<open>sort\<close>, as \<open>q_low\<close> the
  \<open>displayName\<close> and the \<open>description\<close> joined by a space, a value that is not truthy
  being left out, its \<open>lastModified\<close> under \<open>_extra\<close>, and a \<open>description\<close> field
  if and only if the meeting's description is truthy (then that description).
\<close>

theorem produceMeetingSearchDocument_fields:
  assumes "\<not> nullish (js_prop meeting ''tenant'')"
  shows "\<exists>doc. produceMeetingSearchDocument meeting = Inr (JObj doc)
     \<and> lookup doc ''resourceType'' = JStr ''meeting''
     \<and> lookup doc ''id'' = js_prop meeting ''id''
     \<and> lookup doc ''tenantAlias'' = js_prop (js_prop meeting ''tenant'') ''alias''
     \<and> lookup doc ''q_high'' = js_prop meeting ''displayName''
     \<and> lookup doc ''sort'' = js_prop meeting ''displayName''
     \<and> lookup doc ''q_low'' =
         (let n = js_prop meeting ''displayName''; d = js_prop meeting ''description''
          in JStr (if truthy n \<and> truthy d then js_to_string n @ '' '' @ js_to_string d
                   else if truthy n then js_to_string n
                   else if truthy d then js_to_string d
                   else []))
     \<and> js_prop (lookup doc ''_extra'') ''lastModified'' = js_prop meeting ''lastModified''
     \<and> has_prop doc ''description'' = truthy (js_prop meeting ''description'')
     \<and> (truthy (js_prop meeting ''description'') \<longrightarrow>
          lookup doc ''description'' = js_prop meeting ''description'')"
proof -
  have m: "\<not> nullish meeting"
    using assms by (cases meeting) simp_all
  show ?thesis
    using assms m
    by (auto simp add: produceMeetingSearchDocument_def js_get_def Let_def compact_def js_join_def
        lookup_Cons lookup_Nil has_prop_def truthy_not_nullish)
qed

theorem produceMeetingSearchDocument_fields_witness:
  "\<not> nullish (js_prop example_meeting_object ''tenant'')
   \<and> (\<exists>doc. produceMeetingSearchDocument example_meeting_object = Inr (JObj doc)
     \<and> lookup doc ''resourceType'' = JStr ''meeting''
     \<and> lookup doc ''id'' = JStr ''m:cam:1''
     \<and> lookup doc ''tenantAlias'' = JStr ''cam''
     \<and> lookup doc ''q_high'' = JStr ''Weekly''
     \<and> lookup doc ''sort'' = JStr ''Weekly''
     \<and> lookup doc ''q_low'' = JStr ''Weekly Team sync''
     \<and> js_prop (lookup doc ''_extra'') ''lastModified'' = JNum 1400000000000
     \<and> has_prop doc ''description''
     \<and> lookup doc ''description'' = JStr ''Team sync'')
   \<and> \<not> nullish (js_prop example_meeting_plain ''tenant'')
   \<and> (\<exists>doc. produceMeetingSearchDocument example_meeting_plain = Inr (JObj doc)
     \<and> lookup doc ''q_low'' = JStr ''Board''
     \<and> \<not> has_prop doc ''description'')"
proof -
  have a: "\<not> nullish (js_prop example_meeting_object ''tenant'')"
    by (simp add: example_meeting_object_def lookup_def)
  have b: "\<not> nullish (js_prop example_meeting_plain ''tenant'')"
    by (simp add: example_meeting_plain_def lookup_def)
  have c: "\<exists>doc. produceMeetingSearchDocument example_meeting_object = Inr (JObj doc)
     \<and> lookup doc ''resourceType'' = JStr ''meeting''
     \<and> lookup doc ''id'' = JStr ''m:cam:1''
     \<and> lookup doc ''tenantAlias'' = JStr ''cam''
     \<and> lookup doc ''q_high'' = JStr ''Weekly''
     \<and> lookup doc ''sort'' = JStr ''Weekly''
     \<and> lookup doc ''q_low'' = JStr ''Weekly Team sync''
     \<and> js_prop (lookup doc ''_extra'') ''lastModified'' = JNum 1400000000000
     \<and> has_prop doc ''description''
     \<and> lookup doc ''description'' = JStr ''Team sync''"
    using produceMeetingSearchDocument_fields [OF a]
    by (simp add: example_meeting_object_def lookup_Cons lookup_Nil Let_def)
  have d: "\<exists>doc. produceMeetingSearchDocument example_meeting_plain = Inr (JObj doc)
     \<and> lookup doc ''q_low'' = JStr ''Board''
     \<and> \<not> has_prop doc ''description''"
    using produceMeetingSearchDocument_fields [OF b]
    by (simp add: example_meeting_plain_def lookup_Cons lookup_Nil Let_def) blast
  show ?thesis
    using a b c d by simp
qed

lemma getMeetings_each_plain:
  "\<forall>r\<in>set resources. \<not> truthy (lookup r ''meeting'') \<Longrightarrow>
     getMeetings_each resources meetingIds =
       Inr (meetingIds @ map (\<lambda>r. lookup r ''id'') resources)"
  by (induction resources arbitrary: meetingIds) simp_all

lemma getMeetings_each_embedded:
  "\<exists>r\<in>set resources. truthy (lookup r ''meeting'') \<Longrightarrow>
     getMeetings_each resources meetingIds = Inl ReferenceError"
  by (induction resources arbitrary: meetingIds) auto

lemma onMeetings_error_iff:
  "(produceMeetingSearchDocuments_onMeetings err' meetings = SearchCallback [JArr [err]])
     = (truthy err' \<and> err' = err)"
  by (auto simp add: produceMeetingSearchDocuments_onMeetings_def split: sum.splits)

lemma onMeetings_error_iff2:
  "(SearchCallback [JArr [err]] = produceMeetingSearchDocuments_onMeetings err' meetings)
     = (truthy err' \<and> err' = err)"
  using onMeetings_error_iff [of err' meetings err] by auto

text \<open>
  C9, as the code has it. The closing sentence of the claim, that the error branch of
  \<^verbatim>\<open>_produceMeetingSearchDocuments\<close> is unreachable only when no resource carries a
  meeting, fails both ways. With a resource that carries a meeting the ReferenceError
  leaves the function before any callback, so the branch is not reached; with no such
  resource and a data access object that reports an error, the branch is reached.
\<close>

theorem produceMeetingSearchDocuments_error_branch_counterexample:
  "truthy (lookup (embedded_resources ! 1) ''meeting'')
   \<and> produceMeetingSearchDocuments example_dao embedded_resources = [SearchThrows ReferenceError]
   \<and> \<not> truthy (lookup [(''id'', JStr ''m:cam:9'')] ''meeting'')
   \<and> produceMeetingSearchDocuments example_dao [[(''id'', JStr ''m:cam:9'')]] =
       [GetMeetingsById [JStr ''m:cam:9''],
        SearchCallback [JArr [JObj [(''code'', JNum 500)]]]]"
  by (simp add: embedded_resources_def lookup_def produceMeetingSearchDocuments_def
      getMeetings_def example_dao_def produceMeetingSearchDocuments_onMeetings_def)

text \<open>
  C9, amended. When no resource has a truthy \<open>meeting\<close> property, \<^verbatim>\<open>_getMeetings\<close> does
  not throw: it hands the ids of the resources, in input order, to
  \<^verbatim>\<open>MeetingsDAO.getMeetingsById\<close>, or invokes its callback with an empty list of meetings
  when there are no ids. When some resource has a truthy \<open>meeting\<close> property it throws a
  ReferenceError, and so does \<^verbatim>\<open>_produceMeetingSearchDocuments\<close>, before any callback is
  invoked. The error branch of \<^verbatim>\<open>_produceMeetingSearchDocuments\<close>, its callback invoked
  with a one-element array of the error, is reached exactly in the runs in which no resource
  carries a meeting, there is a resource, and the data access object reports that error.
\<close>

theorem getMeetings_embedded_meeting:
  "((\<forall>r\<in>set resources. \<not> truthy (lookup r ''meeting'')) \<longrightarrow>
       getMeetings resources =
         (if resources = [] then GM_Callback [JNull, JArr []]
          else GM_GetMeetingsById (map (\<lambda>r. lookup r ''id'') resources)))
   \<and> ((\<exists>r\<in>set resources. truthy (lookup r ''meeting'')) \<longrightarrow>
         getMeetings resources = GM_Throws ReferenceError
         \<and> produceMeetingSearchDocuments dao resources = [SearchThrows ReferenceError])
   \<and> (SearchCallback [JArr [err]] \<in> set (produceMeetingSearchDocuments dao resources)) =
         ((\<forall>r\<in>set resources. \<not> truthy (lookup r ''meeting'')) \<and> resources \<noteq> []
          \<and> fst (dao (map (\<lambda>r. lookup r ''id'') resources)) = err \<and> truthy err)"
proof (intro conjI impI)
  assume "\<forall>r\<in>set resources. \<not> truthy (lookup r ''meeting'')"
  then show "getMeetings resources =
         (if resources = [] then GM_Callback [JNull, JArr []]
          else GM_GetMeetingsById (map (\<lambda>r. lookup r ''id'') resources))"
    by (simp add: getMeetings_def getMeetings_each_plain)
next
  assume e: "\<exists>r\<in>set resources. truthy (lookup r ''meeting'')"
  then show "getMeetings resources = GM_Throws ReferenceError"
    by (simp add: getMeetings_def getMeetings_each_embedded)
  then show "produceMeetingSearchDocuments dao resources = [SearchThrows ReferenceError]"
    by (simp add: produceMeetingSearchDocuments_def)
next
  show "(SearchCallback [JArr [err]] \<in> set (produceMeetingSearchDocuments dao resources)) =
         ((\<forall>r\<in>set resources. \<not> truthy (lookup r ''meeting'')) \<and> resources \<noteq> []
          \<and> fst (dao (map (\<lambda>r. lookup r ''id'') resources)) = err \<and> truthy err)"
  proof (cases "\<forall>r\<in>set resources. \<not> truthy (lookup r ''meeting'')")
    case True
    then have g: "getMeetings resources =
         (if resources = [] then GM_Callback [JNull, JArr []]
          else GM_GetMeetingsById (map (\<lambda>r. lookup r ''id'') resources))"
      by (simp add: getMeetings_def getMeetings_each_plain)
    show ?thesis
    proof (cases "resources = []")
      case True
      then show ?thesis
        using g
        by (simp add: produceMeetingSearchDocuments_def arg_def
            produceMeetingSearchDocuments_onMeetings_def compact_def)
    next
      case False
      then show ?thesis
        using g True
        by (cases "dao (map (\<lambda>r. lookup r ''id'') resources)")
          (auto simp add: produceMeetingSearchDocuments_def onMeetings_error_iff2)
    qed
  next
    case False
    then have "\<exists>r\<in>set resources. truthy (lookup r ''meeting'')"
      by simp
    then have "produceMeetingSearchDocuments dao resources = [SearchThrows ReferenceError]"
      by (simp add: getMeetings_def getMeetings_each_embedded produceMeetingSearchDocuments_def)
    then show ?thesis
      using False by simp
  qed
qed

theorem getMeetings_embedded_meeting_witness:
  "getMeetings plain_resources = GM_GetMeetingsById [JStr ''m:cam:1'', JStr ''m:cam:2'']
   \<and> getMeetings [] = GM_Callback [JNull, JArr []]
   \<and> getMeetings embedded_resources = GM_Throws ReferenceError
   \<and> produceMeetingSearchDocuments example_dao embedded_resources = [SearchThrows ReferenceError]
   \<and> SearchCallback [JArr [JObj [(''code'', JNum 500)]]]
       \<in> set (produceMeetingSearchDocuments example_dao [[(''id'', JStr ''m:cam:9'')]])"
proof -
  have p: "\<forall>r\<in>set plain_resources. \<not> truthy (lookup r ''meeting'')"
    by (simp add: plain_resources_def lookup_def)
  have n: "\<forall>r\<in>set ([] :: js_object list). \<not> truthy (lookup r ''meeting'')"
    by simp
  have e: "\<exists>r\<in>set embedded_resources. truthy (lookup r ''meeting'')"
    by (simp add: embedded_resources_def lookup_def)
  have f: "(\<forall>r\<in>set [[(''id'', JStr ''m:cam:9'')]]. \<not> truthy (lookup r ''meeting''))
      \<and> [[(''id'', JStr ''m:cam:9'')]] \<noteq> ([] :: js_object list)
      \<and> fst (example_dao (map (\<lambda>r. lookup r ''id'') [[(''id'', JStr ''m:cam:9'')]])) =
          JObj [(''code'', JNum 500)]
      \<and> truthy (JObj [(''code'', JNum 500)])"
    by (simp add: lookup_def example_dao_def)
  have 1: "getMeetings plain_resources = GM_GetMeetingsById [JStr ''m:cam:1'', JStr ''m:cam:2'']"
    using getMeetings_embedded_meeting [where resources = plain_resources] p
    by (simp add: plain_resources_def lookup_def)
  have 2: "getMeetings [] = GM_Callback [JNull, JArr []]"
    using getMeetings_embedded_meeting [where resources = "[]"] n by simp
  have 3: "getMeetings embedded_resources = GM_Throws ReferenceError
      \<and> produceMeetingSearchDocuments example_dao embedded_resources = [SearchThrows ReferenceError]"
    using getMeetings_embedded_meeting [where resources = embedded_resources and dao = example_dao] e
    by simp
  have 4: "SearchCallback [JArr [JObj [(''code'', JNum 500)]]]
       \<in> set (produceMeetingSearchDocuments example_dao [[(''id'', JStr ''m:cam:9'')]])"
    using getMeetings_embedded_meeting [where resources = "[[(''id'', JStr ''m:cam:9'')]]"
        and err = "JObj [(''code'', JNum 500)]" and dao = example_dao] f
    by blast
  show ?thesis
    using 1 2 3 4 by simp
qed

subsection \<open>Message documents\<close>

lemma uniq_Nil: "uniq [] = []"
  by (simp add: uniq_def)

lemma uniq_uniq_append: "uniq (uniq xs @ ys) = uniq (xs @ ys)"
  by (simp add: uniq_def remdups_append2)

lemma produceMeetingMessageDocuments_empty:
  "produceMeetingMessageDocuments M [] documents errs = [MessageCallback errs (or_empty documents)]"
  by (subst produceMeetingMessageDocuments.simps) simp

lemma produceMeetingMessageDocuments_snoc:
  "produceMeetingMessageDocuments M (resources @ [resource]) documents errs =
     resource_event resource #
     produceMeetingMessageDocuments M resources
       (Some (union_arrays (or_empty documents) (resource_documents M resource)))
       (if resource_errors M resource = [] then errs
        else Some (union_arrays (or_empty errs) (resource_errors M resource)))"
  by (subst produceMeetingMessageDocuments.simps)
    (simp add: resource_event_def resource_documents_def resource_errors_def split: option.splits)

lemma uniq_uniq_append_assoc: "uniq (uniq (xs @ ys) @ zs) = uniq (xs @ ys @ zs)"
  using uniq_uniq_append [of "xs @ ys" zs] by simp

lemma produceMeetingMessageDocuments_trace:
  "produceMeetingMessageDocuments M resources documents errs =
     map resource_event (rev resources) @
     [MessageCallback
        (if concat (map (resource_errors M) (rev resources)) = [] then errs
         else Some (uniq (or_empty errs @ concat (map (resource_errors M) (rev resources)))))
        (if resources = [] then or_empty documents
         else uniq (or_empty documents @ concat (map (resource_documents M) (rev resources))))]"
proof (induction resources arbitrary: documents errs rule: rev_induct)
  case Nil
  show ?case
    by (simp add: produceMeetingMessageDocuments_empty)
next
  case (snoc resource resources)
  define es where "es = concat (map (resource_errors M) (rev resources))"
  define ds where "ds = concat (map (resource_documents M) (rev resources))"
  define e where "e = resource_errors M resource"
  define d where "d = resource_documents M resource"
  define errs' where "errs' = (if e = [] then errs else Some (uniq (or_empty errs @ e)))"
  have step: "produceMeetingMessageDocuments M (resources @ [resource]) documents errs =
      resource_event resource #
      produceMeetingMessageDocuments M resources (Some (uniq (or_empty documents @ d))) errs'"
    by (simp only: produceMeetingMessageDocuments_snoc union_arrays_def d_def e_def errs'_def)
  have ih: "produceMeetingMessageDocuments M resources (Some (uniq (or_empty documents @ d))) errs' =
      map resource_event (rev resources) @
      [MessageCallback
         (if es = [] then errs' else Some (uniq (or_empty errs' @ es)))
         (if resources = [] then uniq (or_empty documents @ d)
          else uniq (uniq (or_empty documents @ d) @ ds))]"
    unfolding es_def ds_def
    using snoc.IH [of "Some (uniq (or_empty documents @ d))" errs']
    by (simp only: or_empty_def option.case)
  have docs: "(if resources = [] then uniq (or_empty documents @ d)
               else uniq (uniq (or_empty documents @ d) @ ds)) =
      uniq (or_empty documents @ d @ ds)"
  proof (cases "resources = []")
    case True
    then show ?thesis by (simp add: ds_def)
  next
    case False
    then show ?thesis by (simp add: uniq_uniq_append_assoc)
  qed
  have errors: "(if es = [] then errs' else Some (uniq (or_empty errs' @ es))) =
      (if e @ es = [] then errs else Some (uniq (or_empty errs @ e @ es)))"
  proof (cases "e = []")
    case True
    then show ?thesis by (simp add: errs'_def)
  next
    case False
    then show ?thesis
      by (cases "es = []") (simp_all add: errs'_def or_empty_def uniq_uniq_append_assoc)
  qed
  have r: "rev (resources @ [resource]) = resource # rev resources"
    by simp
  have ce: "concat (map (resource_errors M) (resource # rev resources)) = e @ es"
    by (simp add: e_def es_def)
  have cd: "concat (map (resource_documents M) (resource # rev resources)) = d @ ds"
    by (simp add: d_def ds_def)
  have ne: "resources @ [resource] \<noteq> []"
    by simp
  show ?case
    unfolding step ih docs errors r ce cd
    by (simp only: ne if_False list.map append_Cons)
qed

text \<open>
  C10. For every array of resources \<^verbatim>\<open>_produceMeetingMessageDocuments\<close> terminates and
  invokes its callback exactly once, as the last thing it does. Each step takes the last
  resource off the array, so the resources are handled in the reverse of their input order,
  and the documents passed to the callback are the union of the documents created for each
  resource, in that order.
\<close>

theorem produceMeetingMessageDocuments_once:
  "produceMeetingMessageDocuments M resources None None =
     map resource_event (rev resources) @
     [MessageCallback
        (if concat (map (resource_errors M) (rev resources)) = [] then None
         else Some (uniq (concat (map (resource_errors M) (rev resources)))))
        (uniq (concat (map (resource_documents M) (rev resources))))]
   \<and> length (filter is_callback (produceMeetingMessageDocuments M resources None None)) = 1"
proof -
  define es where "es = concat (map (resource_errors M) (rev resources))"
  define ds where "ds = concat (map (resource_documents M) (rev resources))"
  define evs :: "('a, 'b) message_event list" where "evs = map resource_event (rev resources)"
  have e: "filter is_callback evs = []"
    unfolding evs_def by (induction resources) (simp_all add: resource_event_def)
  have n: "or_empty None = ([] :: 'c list)" for dummy :: 'c
    by (simp add: or_empty_def)
  have d: "(if resources = [] then [] else uniq ([] @ ds)) = uniq ds"
    by (cases "resources = []") (simp_all add: ds_def uniq_Nil)
  have t: "produceMeetingMessageDocuments M resources None None =
      evs @ [MessageCallback (if es = [] then None else Some (uniq es)) (uniq ds)]"
    unfolding produceMeetingMessageDocuments_trace [of M resources None None]
      es_def [symmetric] ds_def [symmetric] evs_def [symmetric] n d
    by simp
  have "length (filter is_callback (produceMeetingMessageDocuments M resources None None)) = 1"
    unfolding t by (simp add: e)
  then show ?thesis
    using t unfolding es_def ds_def evs_def by simp
qed

theorem produceMeetingMessageDocuments_once_witness:
  "produceMeetingMessageDocuments example_messagebox example_resources None None =
     [CreateAllMessageSearchDocuments (JStr ''m:cam:1''),
      CreateAllMessageSearchDocuments (JStr ''m:cam:3''),
      CreateMessageSearchDocuments (JStr ''m:cam:1'') (JArr [JStr ''a'', JStr ''c'']),
      MessageCallback (Some [''unavailable'']) [''m:cam:1#a'', ''m:cam:1#b'', ''m:cam:1#c'']]
   \<and> length (filter is_callback
        (produceMeetingMessageDocuments example_messagebox example_resources None None)) = 1"
  using produceMeetingMessageDocuments_once [of example_messagebox example_resources]
  by (simp add: example_messagebox_def example_resources_def resource_event_def
      resource_documents_def resource_errors_def lookup_def uniq_def)

end
